theory Spec2Isabelle
  imports Complex_Main "HOL-Library.Sublist"
begin

section \<open>Data model (constants/Config)\<close>

text \<open>
  The interfaces of the configuration module, one record per interface. A field
  marked optional in the source (\<^verbatim>\<open>id?: number\<close>) is an \<open>option\<close>. Identifiers,
  song numbers and clock readings (milliseconds since the epoch) are integers; strings
  are character lists. Field names are those of the source; where two interfaces share
  a field name the selector is written qualified (\<open>Favourite.user_id\<close>).
\<close>

record Song =
  id :: int
  song_number :: int
  title :: string
  lyrics :: string
  created_at :: "string option"
  updated_at :: "string option"

record Favourite =
  id :: "int option"
  user_id :: string
  song_id :: int
  created_at :: "string option"
  song :: "Song option"

record Folder =
  id :: "int option"
  user_id :: string
  name :: string
  created_at :: "string option"
  updated_at :: "string option"

record SongFolder =
  id :: "int option"
  song_id :: int
  folder_id :: int
  created_at :: "string option"
  song :: "Song option"

record User =
  id :: string
  email :: string

datatype ThemeMode = light | dark

text \<open>
  A JavaScript \<^verbatim>\<open>number\<close> as far as \<^verbatim>\<open>Math.max\<close> and \<^verbatim>\<open>Math.min\<close> tell values
  apart: the not-a-number value, the two infinities and the finite values.
\<close>

datatype number = NaN | NegInfinity | Finite real | PosInfinity

record AppSettings =
  theme :: ThemeMode
  fontSize :: number
  autoSync :: bool

record 'a ApiResponse =
  data :: "'a option"
  error :: "string option"

record CacheData =
  songs :: "Song list"
  favourites :: "Favourite list"
  folders :: "Folder list"
  lastUpdated :: int

text \<open>\<^verbatim>\<open>Partial<CacheData>\<close> and \<^verbatim>\<open>Partial<AppSettings>\<close>: every field may be absent.\<close>

record PartialCacheData =
  songs :: "Song list option"
  favourites :: "Favourite list option"
  folders :: "Folder list option"
  lastUpdated :: "int option"

record PartialAppSettings =
  theme :: "ThemeMode option"
  fontSize :: "number option"
  autoSync :: "bool option"

definition cacheTimeout :: int where
  "cacheTimeout = 24 * 60 * 60 * 1000"

section \<open>JavaScript built-ins used by the code\<close>

fun number_le :: "number \<Rightarrow> number \<Rightarrow> bool" where
  "number_le NaN _ = False"
| "number_le _ NaN = False"
| "number_le NegInfinity _ = True"
| "number_le _ PosInfinity = True"
| "number_le (Finite x) (Finite y) = (x \<le> y)"
| "number_le _ _ = False"

definition Math_min :: "number \<Rightarrow> number \<Rightarrow> number" where
  "Math_min a b = (if a = NaN \<or> b = NaN then NaN else if number_le a b then a else b)"

definition Math_max :: "number \<Rightarrow> number \<Rightarrow> number" where
  "Math_max a b = (if a = NaN \<or> b = NaN then NaN else if number_le a b then b else a)"

text \<open>
  A value thrown by an awaited call: an \<^verbatim>\<open>Error\<close> object with its message, or some
  other value. \<open>error_message\<close> is the recurring expression
  \<^verbatim>\<open>err instanceof Error ? err.message : fallback\<close>.
\<close>

datatype thrown = JsError string | NonError

definition error_message :: "thrown \<Rightarrow> string \<Rightarrow> string" where
  "error_message err fallback = (case err of JsError m \<Rightarrow> m | NonError \<Rightarrow> fallback)"

section \<open>The offline context (contexts/OfflineContext)\<close>

text \<open>
  AsyncStorage is a map from keys to stored values. What \<^verbatim>\<open>JSON.stringify\<close> and
  \<^verbatim>\<open>toISOString\<close> write is kept as the value written, tagged by its kind.
\<close>

datatype blob = CacheBlob CacheData | SettingsBlob AppSettings | DateBlob int

definition CACHE_DATA :: string where "CACHE_DATA = ''songbook_cache_data''"
definition SETTINGS :: string where "SETTINGS = ''songbook_settings''"
definition LAST_SYNC :: string where "LAST_SYNC = ''songbook_last_sync''"

text \<open>
  The provider's React state together with the device storage. A callback is taken to
  be the one of the latest render, so the state values it closes over are the fields of
  the state it is applied to; a state setter takes effect in the state returned.
\<close>

record OfflineState =
  cachedSongs :: "Song list"
  cachedFavourites :: "Favourite list"
  cachedFolders :: "Folder list"
  isOffline :: bool
  lastSync :: "int option"
  settings :: AppSettings
  storage :: "string \<rightharpoonup> blob"

text \<open>
  What the environment contributes to one \<^verbatim>\<open>updateCache\<close> call: the three clock
  readings (\<^verbatim>\<open>Date.now()\<close>, the \<^verbatim>\<open>new Date()\<close> that is written, the \<^verbatim>\<open>new Date()\<close>
  that becomes \<open>lastSync\<close>) and, for each of the two writes, what it throws if it fails.
  A write that fails stores nothing; the other write of the \<^verbatim>\<open>Promise.all\<close> still lands.
\<close>

record cache_env =
  t_start :: int
  t_write :: int
  t_done :: int
  cache_write :: "thrown option"
  sync_write :: "thrown option"

definition updateCache ::
  "PartialCacheData \<Rightarrow> cache_env \<Rightarrow> OfflineState \<Rightarrow> (thrown + unit) \<times> OfflineState" where
  "updateCache d env s =
    (let currentTime = t_start env;
         s1 = (case PartialCacheData.songs d of
                 Some v \<Rightarrow> s\<lparr>cachedSongs := v\<rparr> | None \<Rightarrow> s);
         s2 = (case PartialCacheData.favourites d of
                 Some v \<Rightarrow> s1\<lparr>cachedFavourites := v\<rparr> | None \<Rightarrow> s1);
         s3 = (case PartialCacheData.folders d of
                 Some v \<Rightarrow> s2\<lparr>cachedFolders := v\<rparr> | None \<Rightarrow> s2);
         cacheData = \<lparr>CacheData.songs =
                        (case PartialCacheData.songs d of
                           Some v \<Rightarrow> v | None \<Rightarrow> cachedSongs s),
                      CacheData.favourites =
                        (case PartialCacheData.favourites d of
                           Some v \<Rightarrow> v | None \<Rightarrow> cachedFavourites s),
                      CacheData.folders =
                        (case PartialCacheData.folders d of
                           Some v \<Rightarrow> v | None \<Rightarrow> cachedFolders s),
                      CacheData.lastUpdated = currentTime\<rparr>;
         st1 = (case cache_write env of
                  None \<Rightarrow> (storage s3)(CACHE_DATA \<mapsto> CacheBlob cacheData)
                | Some _ \<Rightarrow> storage s3);
         st2 = (case sync_write env of
                  None \<Rightarrow> st1(LAST_SYNC \<mapsto> DateBlob (t_write env))
                | Some _ \<Rightarrow> st1);
         s4 = s3\<lparr>storage := st2\<rparr>
     in case cache_write env of
          Some err \<Rightarrow> (Inl err, s4)
        | None \<Rightarrow>
            (case sync_write env of
               Some err \<Rightarrow> (Inl err, s4)
             | None \<Rightarrow> (Inr (), s4\<lparr>lastSync := Some (t_done env)\<rparr>)))"

text \<open>
  \<^verbatim>\<open>clearCache\<close>: \<open>None\<close> as environment is a \<^verbatim>\<open>multiRemove\<close> that succeeds; one that
  throws removes nothing and the state setters are not reached.
\<close>

definition clearCache ::
  "thrown option \<Rightarrow> OfflineState \<Rightarrow> (thrown + unit) \<times> OfflineState" where
  "clearCache env s =
    (case env of
       Some err \<Rightarrow> (Inl err, s)
     | None \<Rightarrow>
         (Inr (), s\<lparr>storage := ((storage s)(CACHE_DATA := None))(LAST_SYNC := None),
                    cachedSongs := [],
                    cachedFavourites := [],
                    cachedFolders := [],
                    lastSync := None\<rparr>))"

text \<open>The object spread \<^verbatim>\<open>{ ...settings, ...newSettings }\<close>.\<close>

definition spread_settings :: "AppSettings \<Rightarrow> PartialAppSettings \<Rightarrow> AppSettings" where
  "spread_settings old new =
    \<lparr>AppSettings.theme =
       (case PartialAppSettings.theme new of Some v \<Rightarrow> v | None \<Rightarrow> AppSettings.theme old),
     AppSettings.fontSize =
       (case PartialAppSettings.fontSize new of
          Some v \<Rightarrow> v | None \<Rightarrow> AppSettings.fontSize old),
     AppSettings.autoSync =
       (case PartialAppSettings.autoSync new of
          Some v \<Rightarrow> v | None \<Rightarrow> AppSettings.autoSync old)\<rparr>"

text \<open>
  \<^verbatim>\<open>updateSettings\<close>: the setter runs before the write is awaited, so the in-memory
  settings change also when the write throws.
\<close>

definition updateSettings ::
  "PartialAppSettings \<Rightarrow> thrown option \<Rightarrow> OfflineState \<Rightarrow> (thrown + unit) \<times> OfflineState" where
  "updateSettings newSettings env s =
    (let updatedSettings = spread_settings (settings s) newSettings;
         s1 = s\<lparr>settings := updatedSettings\<rparr>
     in case env of
          Some err \<Rightarrow> (Inl err, s1)
        | None \<Rightarrow>
            (Inr (), s1\<lparr>storage := (storage s1)(SETTINGS \<mapsto> SettingsBlob updatedSettings)\<rparr>))"

definition toggleTheme ::
  "thrown option \<Rightarrow> OfflineState \<Rightarrow> (thrown + unit) \<times> OfflineState" where
  "toggleTheme env s =
    (let newTheme = (if AppSettings.theme (settings s) = light then dark else light)
     in updateSettings \<lparr>PartialAppSettings.theme = Some newTheme,
                         PartialAppSettings.fontSize = None,
                         PartialAppSettings.autoSync = None\<rparr> env s)"

definition updateFontSize ::
  "number \<Rightarrow> thrown option \<Rightarrow> OfflineState \<Rightarrow> (thrown + unit) \<times> OfflineState" where
  "updateFontSize sz env s =
    updateSettings \<lparr>PartialAppSettings.theme = None,
                     PartialAppSettings.fontSize =
                       Some (Math_max (Finite 12) (Math_min (Finite 32) sz)),
                     PartialAppSettings.autoSync = None\<rparr> env s"

text \<open>\<^verbatim>\<open>isCacheExpired\<close>, with the reading of \<^verbatim>\<open>Date.now()\<close> as argument.\<close>

definition isCacheExpired :: "int \<Rightarrow> OfflineState \<Rightarrow> bool" where
  "isCacheExpired now s =
    (case lastSync s of
       None \<Rightarrow> True
     | Some t \<Rightarrow> (let timeDiff = now - t in timeDiff > cacheTimeout))"

text \<open>The getters, with the \<open>user\<close> of the authentication context as argument.\<close>

definition getSongs :: "OfflineState \<Rightarrow> Song list" where
  "getSongs s = cachedSongs s"

definition fav_of_user :: "User \<Rightarrow> Favourite \<Rightarrow> bool" where
  "fav_of_user u fav = (Favourite.user_id fav = User.id u)"

definition folder_of_user :: "User \<Rightarrow> Folder \<Rightarrow> bool" where
  "folder_of_user u folder = (Folder.user_id folder = User.id u)"

definition getFavourites :: "User option \<Rightarrow> OfflineState \<Rightarrow> Favourite list" where
  "getFavourites user s =
    (case user of
       None \<Rightarrow> []
     | Some u \<Rightarrow> filter (fav_of_user u) (cachedFavourites s))"

definition getFolders :: "User option \<Rightarrow> OfflineState \<Rightarrow> Folder list" where
  "getFolders user s =
    (case user of
       None \<Rightarrow> []
     | Some u \<Rightarrow> filter (folder_of_user u) (cachedFolders s))"

text \<open>The provider's initial state: the arguments of its \<^verbatim>\<open>useState\<close> calls.\<close>

definition DEFAULT_SETTINGS :: AppSettings where
  "DEFAULT_SETTINGS =
    \<lparr>AppSettings.theme = light, AppSettings.fontSize = Finite 16, AppSettings.autoSync = True\<rparr>"

definition initial_state :: OfflineState where
  "initial_state =
    \<lparr>cachedSongs = [], cachedFavourites = [], cachedFolders = [], isOffline = False,
     lastSync = None, settings = DEFAULT_SETTINGS, storage = Map.empty\<rparr>"

section \<open>The data accessor (hooks/useSupabase)\<close>

text \<open>
  The backend is outside the repository. Each operation is given, as an argument, what
  the backend answers to the request the operation sends:
  \<^item> \<open>Data d\<close>: the awaited query resolves to \<^verbatim>\<open>{ data: d, error: null }\<close>;
  \<^item> \<open>Failure m\<close>: it resolves to an error object whose \<^verbatim>\<open>message\<close> is \<open>m\<close>;
  \<^item> \<open>Rejected err\<close>: the awaited call throws \<open>err\<close>.
  For a list query \<open>d\<close> is the row list or \<^verbatim>\<open>null\<close>; for an insert or update ending in
  \<^verbatim>\<open>.select().single()\<close> it is the row; for a delete there is no data.
\<close>

datatype 'a reply = Data 'a | Failure string | Rejected thrown

text \<open>The requests the accessor sends, in the order sent, are logged in the state.\<close>

datatype request =
    Select_songs
  | Select_songs_or string
  | Select_favourites string
  | Insert_favourite string int
  | Delete_favourite string int
  | Select_folders string
  | Insert_folder string string
  | Update_folder int string string
  | Delete_folder int string
  | Insert_song_folder int int
  | Delete_song_folder int int
  | Select_folder_songs int
  | Count_folder_songs int

record World =
  user :: "User option"
  offline :: OfflineState
  loading :: bool
  error :: "string option"
  network :: "request list"

definition begin_op :: "World \<Rightarrow> World" where
  \<comment> \<open>\<^verbatim>\<open>setLoading(true); setError(null);\<close>\<close>
  "begin_op w = w\<lparr>loading := True, World.error := None\<rparr>"

definition send :: "request \<Rightarrow> World \<Rightarrow> World" where
  "send r w = w\<lparr>network := network w @ [r]\<rparr>"

definition fail_with :: "string \<Rightarrow> 'a option \<Rightarrow> World \<Rightarrow> 'a ApiResponse \<times> World" where
  \<comment> \<open>\<^verbatim>\<open>setError(m); return { data: d, error: m };\<close> and the \<^verbatim>\<open>finally\<close> block\<close>
  "fail_with m d w =
    (\<lparr>data = d, ApiResponse.error = Some m\<rparr>, w\<lparr>World.error := Some m, loading := False\<rparr>)"

definition succeed :: "'a option \<Rightarrow> World \<Rightarrow> 'a ApiResponse \<times> World" where
  \<comment> \<open>\<^verbatim>\<open>return { data: d, error: null };\<close> and the \<^verbatim>\<open>finally\<close> block\<close>
  "succeed d w = (\<lparr>data = d, ApiResponse.error = None\<rparr>, w\<lparr>loading := False\<rparr>)"

definition only_songs :: "Song list \<Rightarrow> PartialCacheData" where
  "only_songs rows =
    \<lparr>PartialCacheData.songs = Some rows, PartialCacheData.favourites = None,
     PartialCacheData.folders = None, PartialCacheData.lastUpdated = None\<rparr>"

definition only_favourites :: "Favourite list \<Rightarrow> PartialCacheData" where
  "only_favourites rows =
    \<lparr>PartialCacheData.songs = None, PartialCacheData.favourites = Some rows,
     PartialCacheData.folders = None, PartialCacheData.lastUpdated = None\<rparr>"

definition only_folders :: "Folder list \<Rightarrow> PartialCacheData" where
  "only_folders rows =
    \<lparr>PartialCacheData.songs = None, PartialCacheData.favourites = None,
     PartialCacheData.folders = Some rows, PartialCacheData.lastUpdated = None\<rparr>"

subsection \<open>Songs\<close>

definition fetchSongs ::
  "Song list option reply \<Rightarrow> cache_env \<Rightarrow> World \<Rightarrow> Song list ApiResponse \<times> World" where
  "fetchSongs r env w =
    (let w1 = send Select_songs (begin_op w)
     in case r of
          Rejected err \<Rightarrow> fail_with (error_message err ''Failed to fetch songs'') None w1
        | Failure m \<Rightarrow> fail_with m None w1
        | Data None \<Rightarrow> succeed (Some []) w1
        | Data (Some rows) \<Rightarrow>
            (case updateCache (only_songs rows) env (offline w1) of
               (Inl err, off) \<Rightarrow>
                 fail_with (error_message err ''Failed to fetch songs'') None
                   (w1\<lparr>offline := off\<rparr>)
             | (Inr _, off) \<Rightarrow> succeed (Some rows) (w1\<lparr>offline := off\<rparr>)))"

subsection \<open>Favourites\<close>

definition fetchFavourites ::
  "Favourite list option reply \<Rightarrow> cache_env \<Rightarrow> World \<Rightarrow> Favourite list ApiResponse \<times> World"
  where
  "fetchFavourites r env w =
    (case user w of
       None \<Rightarrow> (\<lparr>data = Some [], ApiResponse.error = Some ''No user found''\<rparr>, w)
     | Some u \<Rightarrow>
        (let w1 = send (Select_favourites (User.id u)) (begin_op w)
         in case r of
              Rejected err \<Rightarrow>
                fail_with (error_message err ''Failed to fetch favourites'') None w1
            | Failure m \<Rightarrow> fail_with m None w1
            | Data None \<Rightarrow> succeed (Some []) w1
            | Data (Some rows) \<Rightarrow>
                (case updateCache (only_favourites rows) env (offline w1) of
                   (Inl err, off) \<Rightarrow>
                     fail_with (error_message err ''Failed to fetch favourites'') None
                       (w1\<lparr>offline := off\<rparr>)
                 | (Inr _, off) \<Rightarrow> succeed (Some rows) (w1\<lparr>offline := off\<rparr>))))"

text \<open>
  The accessor takes \<^verbatim>\<open>cachedFavourites\<close> from the offline context when it renders, and
  \<^verbatim>\<open>addFavourite\<close>, \<^verbatim>\<open>removeFavourite\<close> and \<^verbatim>\<open>isFavourite\<close> are callbacks that close over
  that list; React makes a new callback only when the list (or the user) has changed and
  the accessor has rendered again. \<open>captured\<close> is the list the callback called closes
  over. For a callback of the latest render it is the \<open>cachedFavourites\<close> of the state;
  for a callback used a second time before the next render it is still the list of the
  render that made it. The setter inside \<^verbatim>\<open>updateCache\<close> acts on the current state.
\<close>

definition same_favourite :: "User \<Rightarrow> int \<Rightarrow> Favourite \<Rightarrow> bool" where
  \<comment> \<open>\<^verbatim>\<open>fav.song_id === songId && fav.user_id === user.id\<close>\<close>
  "same_favourite u songId fav =
    (Favourite.song_id fav = songId \<and> Favourite.user_id fav = User.id u)"

definition addFavourite ::
  "Favourite list \<Rightarrow> int \<Rightarrow> Favourite reply \<Rightarrow> cache_env \<Rightarrow> World
     \<Rightarrow> Favourite ApiResponse \<times> World" where
  "addFavourite captured songId r env w =
    (case user w of
       None \<Rightarrow> (\<lparr>data = None, ApiResponse.error = Some ''No user found''\<rparr>, w)
     | Some u \<Rightarrow>
        (let w1 = begin_op w
         in case find (same_favourite u songId) captured of
              Some existingFav \<Rightarrow> succeed (Some existingFav) w1
            | None \<Rightarrow>
               (let w2 = send (Insert_favourite (User.id u) songId) w1
                in case r of
                     Rejected err \<Rightarrow>
                       fail_with (error_message err ''Failed to add favourite'') None w2
                   | Failure m \<Rightarrow> fail_with m None w2
                   | Data row \<Rightarrow>
                       (let updatedFavourites = captured @ [row]
                        in case updateCache (only_favourites updatedFavourites) env
                                  (offline w2) of
                             (Inl err, off) \<Rightarrow>
                               fail_with (error_message err ''Failed to add favourite'') None
                                 (w2\<lparr>offline := off\<rparr>)
                           | (Inr _, off) \<Rightarrow> succeed (Some row) (w2\<lparr>offline := off\<rparr>)))))"

definition other_favourite :: "User \<Rightarrow> int \<Rightarrow> Favourite \<Rightarrow> bool" where
  \<comment> \<open>\<^verbatim>\<open>!(fav.song_id === songId && fav.user_id === user.id)\<close>\<close>
  "other_favourite u songId fav = (\<not> same_favourite u songId fav)"

definition removeFavourite ::
  "Favourite list \<Rightarrow> int \<Rightarrow> unit reply \<Rightarrow> cache_env \<Rightarrow> World
     \<Rightarrow> bool ApiResponse \<times> World" where
  "removeFavourite captured songId r env w =
    (case user w of
       None \<Rightarrow> (\<lparr>data = Some False, ApiResponse.error = Some ''No user found''\<rparr>, w)
     | Some u \<Rightarrow>
        (let w1 = send (Delete_favourite (User.id u) songId) (begin_op w)
         in case r of
              Rejected err \<Rightarrow>
                fail_with (error_message err ''Failed to remove favourite'') (Some False) w1
            | Failure m \<Rightarrow> fail_with m (Some False) w1
            | Data _ \<Rightarrow>
                (let updatedFavourites = filter (other_favourite u songId) captured
                 in case updateCache (only_favourites updatedFavourites) env (offline w1) of
                      (Inl err, off) \<Rightarrow>
                        fail_with (error_message err ''Failed to remove favourite'')
                          (Some False) (w1\<lparr>offline := off\<rparr>)
                    | (Inr _, off) \<Rightarrow> succeed (Some True) (w1\<lparr>offline := off\<rparr>))))"

definition isFavourite :: "Favourite list \<Rightarrow> int \<Rightarrow> World \<Rightarrow> bool" where
  "isFavourite captured songId w =
    (case user w of
       None \<Rightarrow> False
     | Some u \<Rightarrow> list_ex (same_favourite u songId) captured)"

subsection \<open>Strings\<close>

text \<open>
  A string is a sequence of UTF-16 code units below 256 (the Latin-1 range), one \<open>char\<close>
  each. On these units \<open>isSpace\<close> is the white space and the line terminators that
  \<^verbatim>\<open>trim\<close> strips (U+0009 to U+000D, U+0020 and the no-break space U+00A0), \<open>isDigit\<close>
  is the class \<^verbatim>\<open>\d\<close> (\<^verbatim>\<open>0\<close> to \<^verbatim>\<open>9\<close>), and \<open>lower\<close> is the case mapping of
  \<^verbatim>\<open>toLowerCase\<close> on one unit: the letters A to Z, U+00C0 to U+00D6 and U+00D8 to U+00DE
  go to the unit 32 above, every other unit stays.
\<close>

definition isSpace :: "char \<Rightarrow> bool" where
  "isSpace c = (let n = (of_char c :: nat) in (9 \<le> n \<and> n \<le> 13) \<or> n = 32 \<or> n = 160)"




definition trim :: "string \<Rightarrow> string" where
  "trim s = rev (dropWhile isSpace (rev (dropWhile isSpace s)))"



text \<open>
  \<^verbatim>\<open>toString\<close> of an integer-valued number: its decimal digits, after a minus sign when
  negative (song numbers are a 32-bit \<^verbatim>\<open>INTEGER\<close> column, far below the magnitude where
  JavaScript switches to the exponent form).
\<close>

fun digits :: "nat \<Rightarrow> string" where
  "digits n = (if n < 10 then [char_of (48 + n)] else digits (n div 10) @ [char_of (48 + n mod 10)])"

declare digits.simps [simp del]





subsection \<open>Song search\<close>






subsection \<open>Folders\<close>

definition fetchFolders ::
  "Folder list option reply \<Rightarrow> cache_env \<Rightarrow> World \<Rightarrow> Folder list ApiResponse \<times> World" where
  "fetchFolders r env w =
    (case user w of
       None \<Rightarrow> (\<lparr>data = Some [], ApiResponse.error = Some ''No user found''\<rparr>, w)
     | Some u \<Rightarrow>
        (let w1 = send (Select_folders (User.id u)) (begin_op w)
         in case r of
              Rejected err \<Rightarrow> fail_with (error_message err ''Failed to fetch folders'') None w1
            | Failure m \<Rightarrow> fail_with m None w1
            | Data None \<Rightarrow> succeed (Some []) w1
            | Data (Some rows) \<Rightarrow>
                (case updateCache (only_folders rows) env (offline w1) of
                   (Inl err, off) \<Rightarrow>
                     fail_with (error_message err ''Failed to fetch folders'') None
                       (w1\<lparr>offline := off\<rparr>)
                 | (Inr _, off) \<Rightarrow> succeed (Some rows) (w1\<lparr>offline := off\<rparr>))))"

text \<open>
  The three folder mutations refresh the folder cache with \<^verbatim>\<open>fetchFolders\<close> after the
  backend has answered; \<open>r2\<close> and \<open>env\<close> are the answer and the environment of that fetch,
  whose own result is dropped.
\<close>

definition createFolder ::
  "string \<Rightarrow> Folder reply \<Rightarrow> Folder list option reply \<Rightarrow> cache_env \<Rightarrow> World
     \<Rightarrow> Folder ApiResponse \<times> World" where
  "createFolder nm r r2 env w =
    (case user w of
       None \<Rightarrow> (\<lparr>data = None, ApiResponse.error = Some ''No user found''\<rparr>, w)
     | Some u \<Rightarrow>
        (let w1 = send (Insert_folder (User.id u) (trim nm)) (begin_op w)
         in case r of
              Rejected err \<Rightarrow> fail_with (error_message err ''Failed to create folder'') None w1
            | Failure m \<Rightarrow> fail_with m None w1
            | Data row \<Rightarrow> succeed (Some row) (snd (fetchFolders r2 env w1))))"

definition updateFolder ::
  "int \<Rightarrow> string \<Rightarrow> Folder reply \<Rightarrow> Folder list option reply \<Rightarrow> cache_env \<Rightarrow> World
     \<Rightarrow> Folder ApiResponse \<times> World" where
  "updateFolder fid nm r r2 env w =
    (case user w of
       None \<Rightarrow> (\<lparr>data = None, ApiResponse.error = Some ''No user found''\<rparr>, w)
     | Some u \<Rightarrow>
        (let w1 = send (Update_folder fid (User.id u) (trim nm)) (begin_op w)
         in case r of
              Rejected err \<Rightarrow> fail_with (error_message err ''Failed to update folder'') None w1
            | Failure m \<Rightarrow> fail_with m None w1
            | Data row \<Rightarrow> succeed (Some row) (snd (fetchFolders r2 env w1))))"

definition deleteFolder ::
  "int \<Rightarrow> unit reply \<Rightarrow> Folder list option reply \<Rightarrow> cache_env \<Rightarrow> World
     \<Rightarrow> bool ApiResponse \<times> World" where
  "deleteFolder fid r r2 env w =
    (case user w of
       None \<Rightarrow> (\<lparr>data = Some False, ApiResponse.error = Some ''No user found''\<rparr>, w)
     | Some u \<Rightarrow>
        (let w1 = send (Delete_folder fid (User.id u)) (begin_op w)
         in case r of
              Rejected err \<Rightarrow>
                fail_with (error_message err ''Failed to delete folder'') (Some False) w1
            | Failure m \<Rightarrow> fail_with m (Some False) w1
            | Data _ \<Rightarrow> succeed (Some True) (snd (fetchFolders r2 env w1))))"

subsection \<open>Song-folder links\<close>

definition addSongToFolder ::
  "int \<Rightarrow> int \<Rightarrow> SongFolder reply \<Rightarrow> World \<Rightarrow> SongFolder ApiResponse \<times> World" where
  "addSongToFolder songId folderId r w =
    (let w1 = send (Insert_song_folder songId folderId) (begin_op w)
     in case r of
          Rejected err \<Rightarrow> fail_with (error_message err ''Failed to add song to folder'') None w1
        | Failure m \<Rightarrow> fail_with m None w1
        | Data row \<Rightarrow> succeed (Some row) w1)"

definition removeSongFromFolder ::
  "int \<Rightarrow> int \<Rightarrow> unit reply \<Rightarrow> World \<Rightarrow> bool ApiResponse \<times> World" where
  "removeSongFromFolder songId folderId r w =
    (let w1 = send (Delete_song_folder songId folderId) (begin_op w)
     in case r of
          Rejected err \<Rightarrow>
            fail_with (error_message err ''Failed to remove song from folder'') (Some False) w1
        | Failure m \<Rightarrow> fail_with m (Some False) w1
        | Data _ \<Rightarrow> succeed (Some True) w1)"

text \<open>
  \<^verbatim>\<open>getFolderSongs\<close>: each row answered carries the joined song or \<^verbatim>\<open>null\<close>;
  \<^verbatim>\<open>filter(Boolean)\<close> drops the \<^verbatim>\<open>null\<close>s.
\<close>

definition getFolderSongs ::
  "int \<Rightarrow> Song option list option reply \<Rightarrow> World \<Rightarrow> Song list ApiResponse \<times> World" where
  "getFolderSongs folderId r w =
    (let w1 = send (Select_folder_songs folderId) (begin_op w)
     in case r of
          Rejected err \<Rightarrow> fail_with (error_message err ''Failed to fetch folder songs'') None w1
        | Failure m \<Rightarrow> fail_with m None w1
        | Data None \<Rightarrow> succeed (Some []) w1
        | Data (Some rows) \<Rightarrow> succeed (Some (List.map_filter (\<lambda>item. item) rows)) w1)"

text \<open>
  \<^verbatim>\<open>getFolderSongCount\<close> returns a bare number and touches neither \<open>loading\<close> nor
  \<open>error\<close>. The answer's \<^verbatim>\<open>count\<close> may be \<^verbatim>\<open>null\<close>; \<^verbatim>\<open>count || 0\<close> is \<open>0\<close> then.
\<close>

definition getFolderSongCount :: "int \<Rightarrow> int option reply \<Rightarrow> World \<Rightarrow> int \<times> World" where
  "getFolderSongCount folderId r w =
    (let w1 = send (Count_folder_songs folderId) w
     in case r of
          Rejected err \<Rightarrow> (0, w1)
        | Failure m \<Rightarrow> (0, w1)
        | Data None \<Rightarrow> (0, w1)
        | Data (Some count) \<Rightarrow> (if count = 0 then 0 else count, w1))"

subsection \<open>Bulk sync\<close>

text \<open>
  A string or \<^verbatim>\<open>null\<close> used as a condition (\<^verbatim>\<open>a.error || b.error\<close>, \<^verbatim>\<open>filter(Boolean)\<close>)
  counts as true when it is a string that is not empty.
\<close>

definition truthy :: "string option \<Rightarrow> bool" where
  "truthy e = (case e of None \<Rightarrow> False | Some m \<Rightarrow> m \<noteq> [])"

fun join :: "string \<Rightarrow> string list \<Rightarrow> string" where
  "join sep [] = []"
| "join sep [x] = x"
| "join sep (x # y # ys) = x @ sep @ join sep (y # ys)"

text \<open>
  \<^verbatim>\<open>syncAllData\<close>. The three fetches are started together and awaited with
  \<^verbatim>\<open>Promise.all\<close>; none of them can throw, each catching what it awaits. The result
  returned depends only on the three results, and only the result is stated of this
  definition: the effects of the fetches on the state are taken here in the order songs,
  favourites, folders, one fetch after the other, whereas the code starts all three from
  one render, so that the error state and the stored snapshot it leaves follow the order
  in which the answers arrive.
\<close>

definition sync_result ::
  "Song list ApiResponse \<Rightarrow> Favourite list ApiResponse \<Rightarrow> Folder list ApiResponse
     \<Rightarrow> World \<Rightarrow> bool ApiResponse \<times> World" where
  "sync_result songsResult favouritesResult foldersResult w =
    (if truthy (ApiResponse.error songsResult) \<or> truthy (ApiResponse.error favouritesResult)
        \<or> truthy (ApiResponse.error foldersResult)
     then
       (let errors = join '', ''
              (map the (filter truthy
                 [ApiResponse.error songsResult, ApiResponse.error favouritesResult,
                  ApiResponse.error foldersResult]))
        in fail_with errors (Some False) w)
     else succeed (Some True) w)"

definition syncAllData ::
  "Song list option reply \<Rightarrow> Favourite list option reply \<Rightarrow> Folder list option reply
     \<Rightarrow> cache_env \<Rightarrow> cache_env \<Rightarrow> cache_env \<Rightarrow> World \<Rightarrow> bool ApiResponse \<times> World" where
  "syncAllData r1 r2 r3 env1 env2 env3 w =
    (let w0 = begin_op w;
         (songsResult, w1) = fetchSongs r1 env1 w0;
         (favouritesResult, w2) = fetchFavourites r2 env2 w1;
         (foldersResult, w3) = fetchFolders r3 env3 w2
     in sync_result songsResult favouritesResult foldersResult w3)"

section \<open>Notions of the specification\<close>

text \<open>
  A sequence of \<^verbatim>\<open>updateCache\<close> calls, each with its argument and its environment. A
  call that throws does not stop the calls after it.
\<close>

fun updateCache_seq :: "(PartialCacheData \<times> cache_env) list \<Rightarrow> OfflineState \<Rightarrow> OfflineState" where
  "updateCache_seq [] s = s"
| "updateCache_seq ((d, env) # calls) s = updateCache_seq calls (snd (updateCache d env s))"

text \<open>
  The last value provided for a field in a sequence of calls, or the initial value when
  no call provides the field.
\<close>

fun last_provided :: "'a option list \<Rightarrow> 'a \<Rightarrow> 'a" where
  "last_provided [] init = init"
| "last_provided (None # vs) init = last_provided vs init"
| "last_provided (Some v # vs) init = last_provided vs v"

definition provided_songs :: "(PartialCacheData \<times> cache_env) list \<Rightarrow> Song list option list" where
  "provided_songs calls = map (PartialCacheData.songs \<circ> fst) calls"

definition provided_favourites ::
  "(PartialCacheData \<times> cache_env) list \<Rightarrow> Favourite list option list" where
  "provided_favourites calls = map (PartialCacheData.favourites \<circ> fst) calls"

definition provided_folders ::
  "(PartialCacheData \<times> cache_env) list \<Rightarrow> Folder list option list" where
  "provided_folders calls = map (PartialCacheData.folders \<circ> fst) calls"

text \<open>A size brought into the range from 12 to 32.\<close>

definition clamp_font :: "number \<Rightarrow> number" where
  "clamp_font sz =
    (if number_le sz (Finite 12) then Finite 12
     else if number_le (Finite 32) sz then Finite 32
     else sz)"




text \<open>The number of cached favourites of one user for one song.\<close>

definition favourite_count :: "User \<Rightarrow> int \<Rightarrow> OfflineState \<Rightarrow> nat" where
  "favourite_count u songId s = length (filter (same_favourite u songId) (cachedFavourites s))"

text \<open>The value a string of decimal digits denotes.\<close>

definition decimal_value :: "string \<Rightarrow> nat" where
  "decimal_value ds = foldl (\<lambda>a c. 10 * a + (of_char c - 48)) 0 ds"

section \<open>Example data\<close>

definition fav_row :: "int \<Rightarrow> string \<Rightarrow> int \<Rightarrow> Favourite" where
  "fav_row i u sid =
    \<lparr>Favourite.id = Some i, Favourite.user_id = u, Favourite.song_id = sid,
     Favourite.created_at = None, Favourite.song = None\<rparr>"

definition folder_row :: "int \<Rightarrow> string \<Rightarrow> string \<Rightarrow> Folder" where
  "folder_row i u n =
    \<lparr>Folder.id = Some i, Folder.user_id = u, Folder.name = n,
     Folder.created_at = None, Folder.updated_at = None\<rparr>"


definition link_row :: "int \<Rightarrow> int \<Rightarrow> int \<Rightarrow> SongFolder" where
  "link_row i sid fid =
    \<lparr>SongFolder.id = Some i, SongFolder.song_id = sid, SongFolder.folder_id = fid,
     SongFolder.created_at = None, SongFolder.song = None\<rparr>"

definition alice :: User where
  "alice = \<lparr>User.id = ''alice'', email = ''alice@example.org''\<rparr>"

definition two_user_state :: OfflineState where
  "two_user_state =
    initial_state\<lparr>
      cachedFavourites := [fav_row 1 ''alice'' 7, fav_row 2 ''bob'' 7, fav_row 3 ''alice'' 9],
      cachedFolders := [folder_row 1 ''bob'' ''Hymns'', folder_row 2 ''alice'' ''Carols'']\<rparr>"

definition env_at :: "int \<Rightarrow> cache_env" where
  "env_at t = \<lparr>t_start = t, t_write = t, t_done = t, cache_write = None, sync_write = None\<rparr>"

definition no_update :: PartialCacheData where
  "no_update =
    \<lparr>PartialCacheData.songs = None, PartialCacheData.favourites = None,
     PartialCacheData.folders = None, PartialCacheData.lastUpdated = None\<rparr>"

definition signed_out_world :: World where
  "signed_out_world =
    \<lparr>user = None, offline = initial_state, loading = False, World.error = None, network = []\<rparr>"

definition alice_world :: World where
  "alice_world = signed_out_world\<lparr>user := Some alice\<rparr>"





text \<open>The backend's message when an insert breaks a \<^verbatim>\<open>UNIQUE\<close> constraint.\<close>

definition duplicate_key :: string where
  "duplicate_key = ''duplicate key value violates unique constraint''"

section \<open>Properties\<close>

subsection \<open>The cache keeps the last value written to each field\<close>

lemma updateCache_cachedSongs:
  "cachedSongs (snd (updateCache d env s)) =
     (case PartialCacheData.songs d of Some v \<Rightarrow> v | None \<Rightarrow> cachedSongs s)"
  by (simp add: updateCache_def Let_def split: option.splits)

lemma updateCache_cachedFavourites:
  "cachedFavourites (snd (updateCache d env s)) =
     (case PartialCacheData.favourites d of Some v \<Rightarrow> v | None \<Rightarrow> cachedFavourites s)"
  by (simp add: updateCache_def Let_def split: option.splits)

lemma updateCache_cachedFolders:
  "cachedFolders (snd (updateCache d env s)) =
     (case PartialCacheData.folders d of Some v \<Rightarrow> v | None \<Rightarrow> cachedFolders s)"
  by (simp add: updateCache_def Let_def split: option.splits)

lemma updateCache_seq_songs:
  "cachedSongs (updateCache_seq calls s) = last_provided (provided_songs calls) (cachedSongs s)"
proof (induction calls arbitrary: s)
  case Nil
  show ?case by (simp add: provided_songs_def)
next
  case (Cons c calls)
  obtain d env where c: "c = (d, env)" by (cases c)
  show ?case using Cons.IH [of "snd (updateCache d env s)"]
    by (cases "PartialCacheData.songs d") (simp_all add: c provided_songs_def updateCache_cachedSongs)
qed

lemma updateCache_seq_favourites:
  "cachedFavourites (updateCache_seq calls s) =
     last_provided (provided_favourites calls) (cachedFavourites s)"
proof (induction calls arbitrary: s)
  case Nil
  show ?case by (simp add: provided_favourites_def)
next
  case (Cons c calls)
  obtain d env where c: "c = (d, env)" by (cases c)
  show ?case using Cons.IH [of "snd (updateCache d env s)"]
    by (cases "PartialCacheData.favourites d")
       (simp_all add: c provided_favourites_def updateCache_cachedFavourites)
qed

lemma updateCache_seq_folders:
  "cachedFolders (updateCache_seq calls s) =
     last_provided (provided_folders calls) (cachedFolders s)"
proof (induction calls arbitrary: s)
  case Nil
  show ?case by (simp add: provided_folders_def)
next
  case (Cons c calls)
  obtain d env where c: "c = (d, env)" by (cases c)
  show ?case using Cons.IH [of "snd (updateCache d env s)"]
    by (cases "PartialCacheData.folders d")
       (simp_all add: c provided_folders_def updateCache_cachedFolders)
qed

text \<open>
  Claim C1. After any sequence of \<^verbatim>\<open>updateCache\<close> calls, from any state and whatever
  the storage does, each of the in-memory lists \<open>cachedSongs\<close>, \<open>cachedFavourites\<close> and
  \<open>cachedFolders\<close> is the last value a call provided for that field, and is the initial
  list when no call provided the field.
\<close>

theorem updateCache_last_write_wins:
  "cachedSongs (updateCache_seq calls s) = last_provided (provided_songs calls) (cachedSongs s)
   \<and> cachedFavourites (updateCache_seq calls s) =
       last_provided (provided_favourites calls) (cachedFavourites s)
   \<and> cachedFolders (updateCache_seq calls s) =
       last_provided (provided_folders calls) (cachedFolders s)"
  by (simp only: updateCache_seq_songs updateCache_seq_favourites updateCache_seq_folders)

subsection \<open>Cache expiry\<close>

lemma updateCache_lastSync:
  "fst (updateCache d env s) = Inr () \<Longrightarrow> lastSync (snd (updateCache d env s)) = Some (t_done env)"
  by (simp add: updateCache_def Let_def split: option.splits)

lemma clearCache_lastSync:
  "fst (clearCache env s) = Inr () \<Longrightarrow> lastSync (snd (clearCache env s)) = None"
  by (simp add: clearCache_def split: option.splits)

text \<open>
  Claim C2. \<^verbatim>\<open>isCacheExpired\<close> is decided by the last-sync timestamp of the state (and
  the clock): it is true when there is no timestamp, and with a timestamp it is true
  exactly when the clock is more than 24 hours (86400000 ms) past it. After a
  \<^verbatim>\<open>clearCache\<close> that returns it is true; after an \<^verbatim>\<open>updateCache\<close> that returns it is
  false at the moment the timestamp was taken, and true exactly from more than 24 hours
  after that moment.
\<close>

theorem isCacheExpired_spec:
  "(lastSync s = None \<longrightarrow> isCacheExpired now s)
   \<and> (lastSync s = Some t \<longrightarrow> isCacheExpired now s = (now - t > 24 * 60 * 60 * 1000))
   \<and> (lastSync s = lastSync s' \<longrightarrow> isCacheExpired now s = isCacheExpired now s')
   \<and> (fst (clearCache cenv s) = Inr () \<longrightarrow> isCacheExpired now (snd (clearCache cenv s)))
   \<and> (fst (updateCache d env s) = Inr () \<longrightarrow>
        \<not> isCacheExpired (t_done env) (snd (updateCache d env s))
        \<and> isCacheExpired now (snd (updateCache d env s)) =
            (now - t_done env > 24 * 60 * 60 * 1000))"
proof -
  have a: "lastSync s = None \<longrightarrow> isCacheExpired now s"
    by (simp add: isCacheExpired_def)
  have b: "lastSync s = Some t \<longrightarrow> isCacheExpired now s = (now - t > 24 * 60 * 60 * 1000)"
    by (simp add: isCacheExpired_def cacheTimeout_def)
  have c: "lastSync s = lastSync s' \<longrightarrow> isCacheExpired now s = isCacheExpired now s'"
    by (simp add: isCacheExpired_def)
  have d: "fst (clearCache cenv s) = Inr () \<longrightarrow> isCacheExpired now (snd (clearCache cenv s))"
    using clearCache_lastSync [of cenv s] by (simp add: isCacheExpired_def)
  have e: "fst (updateCache d env s) = Inr () \<longrightarrow>
        \<not> isCacheExpired (t_done env) (snd (updateCache d env s))
        \<and> isCacheExpired now (snd (updateCache d env s)) =
            (now - t_done env > 24 * 60 * 60 * 1000)"
    using updateCache_lastSync [of d env s] by (simp add: isCacheExpired_def cacheTimeout_def)
  from a b c d e show ?thesis by blast
qed

theorem isCacheExpired_spec_witness:
  "lastSync initial_state = None \<and> isCacheExpired 5 initial_state
   \<and> lastSync (initial_state\<lparr>lastSync := Some 1000\<rparr>) = Some 1000
   \<and> \<not> isCacheExpired (1000 + 86400000) (initial_state\<lparr>lastSync := Some 1000\<rparr>)
   \<and> isCacheExpired (1000 + 86400001) (initial_state\<lparr>lastSync := Some 1000\<rparr>)
   \<and> fst (clearCache None (initial_state\<lparr>lastSync := Some 1000\<rparr>)) = Inr ()
   \<and> isCacheExpired 1001 (snd (clearCache None (initial_state\<lparr>lastSync := Some 1000\<rparr>)))
   \<and> fst (updateCache no_update (env_at 2000) initial_state) = Inr ()
   \<and> \<not> isCacheExpired 2000 (snd (updateCache no_update (env_at 2000) initial_state))"
proof -
  have h1: "lastSync initial_state = None" by (simp add: initial_state_def)
  have h2: "fst (clearCache None (initial_state\<lparr>lastSync := Some 1000\<rparr>)) = Inr ()"
    by (simp add: clearCache_def)
  have h3: "fst (updateCache no_update (env_at 2000) initial_state) = Inr ()"
    by (simp add: updateCache_def env_at_def Let_def no_update_def)
  have h4: "t_done (env_at 2000) = 2000" by (simp add: env_at_def)
  show ?thesis
    using h1 h2 h3 h4
      isCacheExpired_spec [of initial_state 5 0 initial_state None no_update "env_at 2000"]
      isCacheExpired_spec [of "initial_state\<lparr>lastSync := Some 1000\<rparr>" "1000 + 86400000" 1000
         initial_state None no_update "env_at 2000"]
      isCacheExpired_spec [of "initial_state\<lparr>lastSync := Some 1000\<rparr>" "1000 + 86400001" 1000
         initial_state None no_update "env_at 2000"]
      isCacheExpired_spec [of "initial_state\<lparr>lastSync := Some 1000\<rparr>" 1001 1000
         initial_state None no_update "env_at 2000"]
      isCacheExpired_spec [of initial_state 2000 0 initial_state None no_update "env_at 2000"]
    by simp
qed

subsection \<open>The getters are scoped by the user\<close>

text \<open>
  Claim C5. \<^verbatim>\<open>getFavourites\<close> and \<^verbatim>\<open>getFolders\<close> return the empty list when no user is
  authenticated; with a user they return exactly the cached rows whose \<open>user_id\<close> is the
  user's id, in cache order: every row returned has that id, and every cached row with
  that id is returned.
\<close>

theorem getters_scoped_by_user:
  "getFavourites None s = [] \<and> getFolders None s = []
   \<and> getFavourites (Some u) s = filter (fav_of_user u) (cachedFavourites s)
   \<and> getFolders (Some u) s = filter (folder_of_user u) (cachedFolders s)
   \<and> (\<forall>fav \<in> set (getFavourites (Some u) s). Favourite.user_id fav = User.id u)
   \<and> (\<forall>folder \<in> set (getFolders (Some u) s). Folder.user_id folder = User.id u)
   \<and> (\<forall>fav \<in> set (cachedFavourites s).
         Favourite.user_id fav = User.id u \<longrightarrow> fav \<in> set (getFavourites (Some u) s))
   \<and> (\<forall>folder \<in> set (cachedFolders s).
         Folder.user_id folder = User.id u \<longrightarrow> folder \<in> set (getFolders (Some u) s))"
  by (simp add: getFavourites_def getFolders_def fav_of_user_def folder_of_user_def)

theorem getters_scoped_by_user_witness:
  "getFavourites (Some alice) two_user_state = [fav_row 1 ''alice'' 7, fav_row 3 ''alice'' 9]
   \<and> getFolders (Some alice) two_user_state = [folder_row 2 ''alice'' ''Carols'']
   \<and> fav_row 2 ''bob'' 7 \<in> set (cachedFavourites two_user_state)
   \<and> fav_row 2 ''bob'' 7 \<notin> set (getFavourites (Some alice) two_user_state)
   \<and> fav_row 1 ''alice'' 7 \<in> set (cachedFavourites two_user_state)
   \<and> Favourite.user_id (fav_row 1 ''alice'' 7) = User.id alice
   \<and> fav_row 1 ''alice'' 7 \<in> set (getFavourites (Some alice) two_user_state)
   \<and> folder_row 2 ''alice'' ''Carols'' \<in> set (cachedFolders two_user_state)
   \<and> Folder.user_id (folder_row 2 ''alice'' ''Carols'') = User.id alice
   \<and> folder_row 2 ''alice'' ''Carols'' \<in> set (getFolders (Some alice) two_user_state)
   \<and> getFavourites None two_user_state = [] \<and> getFolders None two_user_state = []"
  using getters_scoped_by_user [of two_user_state alice]
  by (simp add: two_user_state_def initial_state_def alice_def fav_row_def folder_row_def
        fav_of_user_def folder_of_user_def)

subsection \<open>Settings and cache data do not interfere\<close>

lemma keys_distinct: "CACHE_DATA \<noteq> SETTINGS" "LAST_SYNC \<noteq> SETTINGS" "CACHE_DATA \<noteq> LAST_SYNC"
  by (simp_all add: CACHE_DATA_def SETTINGS_def LAST_SYNC_def)

lemma updateSettings_frame:
  "cachedSongs (snd (updateSettings n env s)) = cachedSongs s
   \<and> cachedFavourites (snd (updateSettings n env s)) = cachedFavourites s
   \<and> cachedFolders (snd (updateSettings n env s)) = cachedFolders s
   \<and> lastSync (snd (updateSettings n env s)) = lastSync s
   \<and> storage (snd (updateSettings n env s)) CACHE_DATA = storage s CACHE_DATA
   \<and> storage (snd (updateSettings n env s)) LAST_SYNC = storage s LAST_SYNC"
  using keys_distinct by (simp add: updateSettings_def Let_def split: option.splits)

lemma updateCache_frame:
  "settings (snd (updateCache d env s)) = settings s
   \<and> storage (snd (updateCache d env s)) SETTINGS = storage s SETTINGS"
  using keys_distinct by (simp add: updateCache_def Let_def split: option.splits)

lemma clearCache_frame:
  "settings (snd (clearCache env s)) = settings s
   \<and> storage (snd (clearCache env s)) SETTINGS = storage s SETTINGS"
  using keys_distinct by (simp add: clearCache_def split: option.splits)

text \<open>
  Claim C8. The settings are stored under a key different from the two keys of the
  cache data. \<^verbatim>\<open>updateSettings\<close>, \<^verbatim>\<open>toggleTheme\<close> and \<^verbatim>\<open>updateFontSize\<close> leave the three
  cached lists and what is stored under the cache-data and last-sync keys unchanged;
  \<^verbatim>\<open>updateCache\<close> and \<^verbatim>\<open>clearCache\<close> leave the settings and what is stored under the
  settings key unchanged. This holds whether or not the storage call throws.
\<close>

theorem settings_and_cache_independent:
  "CACHE_DATA \<noteq> SETTINGS \<and> LAST_SYNC \<noteq> SETTINGS
   \<and> cachedSongs (snd (updateSettings n senv s)) = cachedSongs s
   \<and> cachedFavourites (snd (updateSettings n senv s)) = cachedFavourites s
   \<and> cachedFolders (snd (updateSettings n senv s)) = cachedFolders s
   \<and> storage (snd (updateSettings n senv s)) CACHE_DATA = storage s CACHE_DATA
   \<and> storage (snd (updateSettings n senv s)) LAST_SYNC = storage s LAST_SYNC
   \<and> cachedSongs (snd (toggleTheme senv s)) = cachedSongs s
   \<and> cachedFavourites (snd (toggleTheme senv s)) = cachedFavourites s
   \<and> cachedFolders (snd (toggleTheme senv s)) = cachedFolders s
   \<and> storage (snd (toggleTheme senv s)) CACHE_DATA = storage s CACHE_DATA
   \<and> storage (snd (toggleTheme senv s)) LAST_SYNC = storage s LAST_SYNC
   \<and> cachedSongs (snd (updateFontSize sz senv s)) = cachedSongs s
   \<and> cachedFavourites (snd (updateFontSize sz senv s)) = cachedFavourites s
   \<and> cachedFolders (snd (updateFontSize sz senv s)) = cachedFolders s
   \<and> storage (snd (updateFontSize sz senv s)) CACHE_DATA = storage s CACHE_DATA
   \<and> storage (snd (updateFontSize sz senv s)) LAST_SYNC = storage s LAST_SYNC
   \<and> settings (snd (updateCache d env s)) = settings s
   \<and> storage (snd (updateCache d env s)) SETTINGS = storage s SETTINGS
   \<and> settings (snd (clearCache cenv s)) = settings s
   \<and> storage (snd (clearCache cenv s)) SETTINGS = storage s SETTINGS"
  using keys_distinct updateCache_frame [of d env s] clearCache_frame [of cenv s]
    updateSettings_frame [of n senv s] updateSettings_frame [of _ senv s]
  by (simp add: toggleTheme_def updateFontSize_def Let_def updateSettings_frame)

subsection \<open>The font size is clamped\<close>

lemma clamp_numeric:
  "sz \<noteq> NaN \<Longrightarrow> Math_max (Finite 12) (Math_min (Finite 32) sz) = clamp_font sz"
  by (cases sz) (auto simp: Math_max_def Math_min_def clamp_font_def)

lemma clamp_range:
  "sz \<noteq> NaN \<Longrightarrow> number_le (Finite 12) (clamp_font sz) \<and> number_le (clamp_font sz) (Finite 32)"
  by (cases sz) (auto simp: clamp_font_def)

lemma updateFontSize_settings:
  "settings (snd (updateFontSize sz env s)) =
     (settings s)\<lparr>AppSettings.fontSize := Math_max (Finite 12) (Math_min (Finite 32) sz)\<rparr>"
  by (simp add: updateFontSize_def updateSettings_def spread_settings_def Let_def split: option.splits)

lemma updateFontSize_stored:
  "storage (snd (updateFontSize sz None s)) SETTINGS =
     Some (SettingsBlob (settings (snd (updateFontSize sz None s))))"
  by (simp add: updateFontSize_def updateSettings_def spread_settings_def Let_def)

text \<open>
  Claim C9. \<^verbatim>\<open>updateFontSize(size)\<close> sets the font size to
  \<^verbatim>\<open>Math.max(12, Math.min(32, size))\<close>; for every size that is a number (not \<open>NaN\<close>) this is
  the size brought into the range from 12 to 32. The theme and \<open>autoSync\<close> are unchanged,
  and when the storage write succeeds the settings stored are the new settings.
\<close>

theorem updateFontSize_clamps:
  "AppSettings.fontSize (settings (snd (updateFontSize sz env s))) =
      Math_max (Finite 12) (Math_min (Finite 32) sz)
   \<and> (sz \<noteq> NaN \<longrightarrow>
        AppSettings.fontSize (settings (snd (updateFontSize sz env s))) = clamp_font sz
        \<and> number_le (Finite 12) (AppSettings.fontSize (settings (snd (updateFontSize sz env s))))
        \<and> number_le (AppSettings.fontSize (settings (snd (updateFontSize sz env s)))) (Finite 32))
   \<and> AppSettings.theme (settings (snd (updateFontSize sz env s))) = AppSettings.theme (settings s)
   \<and> AppSettings.autoSync (settings (snd (updateFontSize sz env s))) =
       AppSettings.autoSync (settings s)
   \<and> (env = None \<longrightarrow>
        fst (updateFontSize sz env s) = Inr ()
        \<and> storage (snd (updateFontSize sz env s)) SETTINGS =
            Some (SettingsBlob (settings (snd (updateFontSize sz env s)))))"
  using clamp_numeric [of sz] clamp_range [of sz] updateFontSize_stored [of sz s]
  by (auto simp: updateFontSize_settings) (simp add: updateFontSize_def updateSettings_def Let_def)

theorem updateFontSize_clamps_witness:
  "Finite 40 \<noteq> NaN
   \<and> AppSettings.fontSize (settings (snd (updateFontSize (Finite 40) None initial_state))) = Finite 32
   \<and> AppSettings.fontSize (settings (snd (updateFontSize (Finite 5) None initial_state))) = Finite 12
   \<and> AppSettings.fontSize (settings (snd (updateFontSize (Finite 20) None initial_state))) = Finite 20
   \<and> AppSettings.theme (settings (snd (updateFontSize (Finite 40) None initial_state))) = light
   \<and> storage (snd (updateFontSize (Finite 40) None initial_state)) SETTINGS =
       Some (SettingsBlob (DEFAULT_SETTINGS\<lparr>AppSettings.fontSize := Finite 32\<rparr>))"
  using updateFontSize_clamps [of "Finite 40" None initial_state]
    updateFontSize_clamps [of "Finite 5" None initial_state]
    updateFontSize_clamps [of "Finite 20" None initial_state]
  by (simp add: clamp_font_def initial_state_def DEFAULT_SETTINGS_def updateFontSize_def
        updateSettings_def spread_settings_def Math_max_def Math_min_def Let_def)

subsection \<open>The folder song count hides errors\<close>

text \<open>
  Claim C10. \<^verbatim>\<open>getFolderSongCount\<close> has no error result and leaves the accessor's error
  state alone: when the backend answers with an error, or the call throws, it returns 0,
  which is also what it returns for a folder whose count is 0, so the two cannot be told
  apart; any other count is returned as it is.
\<close>

theorem getFolderSongCount_never_errors:
  "fst (getFolderSongCount folderId (Failure m) w) = 0
   \<and> fst (getFolderSongCount folderId (Rejected err) w) = 0
   \<and> fst (getFolderSongCount folderId (Data None) w) = 0
   \<and> fst (getFolderSongCount folderId (Data (Some 0)) w) = 0
   \<and> getFolderSongCount folderId (Failure m) w = getFolderSongCount folderId (Data (Some 0)) w
   \<and> getFolderSongCount folderId (Rejected err) w = getFolderSongCount folderId (Data (Some 0)) w
   \<and> World.error (snd (getFolderSongCount folderId r w)) = World.error w
   \<and> fst (getFolderSongCount folderId (Data (Some n)) w) = n"
  by (simp add: getFolderSongCount_def send_def Let_def split: reply.splits option.splits)

subsection \<open>Operations without a user\<close>

text \<open>
  Claim C6, as amended. With no user authenticated, the favourite operations (fetch,
  add, remove) and the folder operations (fetch, create, update, delete) return at once
  with the error \<^verbatim>\<open>No user found\<close>, send no request and leave the whole state, the
  cache included, as it was. The song-folder link operations (\<^verbatim>\<open>addSongToFolder\<close>,
  \<^verbatim>\<open>removeSongFromFolder\<close>, \<^verbatim>\<open>getFolderSongs\<close>, \<^verbatim>\<open>getFolderSongCount\<close>) do not consult
  the user: they always send their request.
\<close>

theorem no_user_fails_fast:
  assumes "user w = None"
  shows "fetchFavourites rfav env w =
           (\<lparr>data = Some [], ApiResponse.error = Some ''No user found''\<rparr>, w)
       \<and> addFavourite captured songId radd env w =
           (\<lparr>data = None, ApiResponse.error = Some ''No user found''\<rparr>, w)
       \<and> removeFavourite captured songId rdel env w =
           (\<lparr>data = Some False, ApiResponse.error = Some ''No user found''\<rparr>, w)
       \<and> fetchFolders rfold env w =
           (\<lparr>data = Some [], ApiResponse.error = Some ''No user found''\<rparr>, w)
       \<and> createFolder nm rrow rfold env w =
           (\<lparr>data = None, ApiResponse.error = Some ''No user found''\<rparr>, w)
       \<and> updateFolder folderId nm rrow rfold env w =
           (\<lparr>data = None, ApiResponse.error = Some ''No user found''\<rparr>, w)
       \<and> deleteFolder folderId rdel rfold env w =
           (\<lparr>data = Some False, ApiResponse.error = Some ''No user found''\<rparr>, w)
       \<and> network (snd (addSongToFolder songId folderId rlink w)) =
           network w @ [Insert_song_folder songId folderId]
       \<and> network (snd (removeSongFromFolder songId folderId rdel w)) =
           network w @ [Delete_song_folder songId folderId]
       \<and> network (snd (getFolderSongs folderId rsongs w)) =
           network w @ [Select_folder_songs folderId]
       \<and> network (snd (getFolderSongCount folderId rcount w)) =
           network w @ [Count_folder_songs folderId]"
proof -
  have links:
    "network (snd (addSongToFolder songId folderId rlink w)) =
       network w @ [Insert_song_folder songId folderId]"
    "network (snd (removeSongFromFolder songId folderId rdel w)) =
       network w @ [Delete_song_folder songId folderId]"
    "network (snd (getFolderSongs folderId rsongs w)) =
       network w @ [Select_folder_songs folderId]"
    "network (snd (getFolderSongCount folderId rcount w)) =
       network w @ [Count_folder_songs folderId]"
    by (simp_all add: addSongToFolder_def removeSongFromFolder_def getFolderSongs_def
          getFolderSongCount_def send_def begin_op_def fail_with_def succeed_def Let_def
          split: reply.splits option.splits)
  from assms links show ?thesis
    by (simp add: fetchFavourites_def addFavourite_def removeFavourite_def fetchFolders_def
          createFolder_def updateFolder_def deleteFolder_def)
qed

theorem no_user_fails_fast_witness:
  "user signed_out_world = None
   \<and> addFavourite [] 7 (Data (fav_row 1 ''alice'' 7)) (env_at 0) signed_out_world =
       (\<lparr>data = None, ApiResponse.error = Some ''No user found''\<rparr>, signed_out_world)
   \<and> fetchFolders (Data (Some [])) (env_at 0) signed_out_world =
       (\<lparr>data = Some [], ApiResponse.error = Some ''No user found''\<rparr>, signed_out_world)
   \<and> network signed_out_world = []"
proof -
  have h: "user signed_out_world = None" by (simp add: signed_out_world_def)
  show ?thesis
    using h no_user_fails_fast [OF h, of "Data (Some [])" "env_at 0" "[]" 7
        "Data (fav_row 1 ''alice'' 7)" "Data ()" "Data (Some [])"]
    by (simp add: signed_out_world_def)
qed

text \<open>
  The claim as first stated includes the song-folder link operations among those that
  fail without a user. With no user, \<^verbatim>\<open>addSongToFolder(3, 4)\<close> sends its insert and
  returns the row the backend answers, without error.
\<close>

theorem link_operations_no_user_counterexample:
  "user signed_out_world = None
   \<and> fst (addSongToFolder 3 4 (Data (link_row 1 3 4)) signed_out_world) =
       \<lparr>data = Some (link_row 1 3 4), ApiResponse.error = None\<rparr>
   \<and> network (snd (addSongToFolder 3 4 (Data (link_row 1 3 4)) signed_out_world)) =
       [Insert_song_folder 3 4]"
  by (simp add: signed_out_world_def addSongToFolder_def send_def begin_op_def succeed_def)

subsection \<open>Bulk sync\<close>

lemma sync_result_nonempty_messages:
  assumes "ApiResponse.error a \<noteq> Some []" "ApiResponse.error b \<noteq> Some []"
    "ApiResponse.error c \<noteq> Some []"
  shows "(fst (sync_result a b c w) = \<lparr>data = Some True, ApiResponse.error = None\<rparr>) =
           (ApiResponse.error a = None \<and> ApiResponse.error b = None \<and> ApiResponse.error c = None)"
  using assms
  by (auto simp: sync_result_def truthy_def fail_with_def succeed_def Let_def split: option.splits)

text \<open>
  Claim C7 says that \<^verbatim>\<open>syncAllData\<close> returns success if and only if all three fetches
  succeed. \<^verbatim>\<open>syncAllData\<close> recognises a failed fetch by its error message being a
  non-empty string. When the backend answers the songs query with an error whose
  message is the empty string, and the two other fetches succeed, \<^verbatim>\<open>fetchSongs\<close>
  returns no data and the empty message as error, and \<^verbatim>\<open>syncAllData\<close> returns success.
  With any non-empty message in its place, here \<^verbatim>\<open>timeout\<close>, \<^verbatim>\<open>syncAllData\<close> returns the
  failure with that message.
\<close>

theorem syncAllData_empty_message:
  "fst (fetchSongs (Failure []) (env_at 0) alice_world) =
     \<lparr>data = None, ApiResponse.error = Some []\<rparr>
   \<and> fst (syncAllData (Failure []) (Data (Some [])) (Data (Some []))
            (env_at 0) (env_at 0) (env_at 0) alice_world) =
       \<lparr>data = Some True, ApiResponse.error = None\<rparr>
   \<and> fst (syncAllData (Failure ''timeout'') (Data (Some [])) (Data (Some []))
            (env_at 0) (env_at 0) (env_at 0) alice_world) =
       \<lparr>data = Some False, ApiResponse.error = Some ''timeout''\<rparr>"
  by (simp add: syncAllData_def sync_result_def fetchSongs_def fetchFavourites_def
        fetchFolders_def alice_world_def signed_out_world_def send_def begin_op_def
        fail_with_def succeed_def truthy_def updateCache_def only_favourites_def
        only_folders_def env_at_def Let_def)

subsection \<open>Adding a favourite twice\<close>

lemma find_None_filter: "find P xs = None \<Longrightarrow> filter P xs = []"
  by (induction xs) (auto split: if_splits)

lemma find_Some_filter: "find P xs = Some x \<Longrightarrow> 1 \<le> length (filter P xs)"
  by (induction xs) (auto split: if_splits)

lemma find_append_new: "find P xs = None \<Longrightarrow> P x \<Longrightarrow> find P (xs @ [x]) = Some x"
  by (induction xs) (auto split: if_splits)

text \<open>
  Through a callback of the latest render the guard of \<^verbatim>\<open>addFavourite\<close> works: when a
  call returns a row of the user and song, a call through the callback of the next
  render returns the same row, sends no request and changes nothing, and the cache holds
  \<open>max 1 n\<close> favourites of that user and song, \<open>n\<close> being the number held before.
\<close>

lemma addFavourite_latest_callback:
  assumes "user w = Some u"
    and "fst (addFavourite (cachedFavourites (offline w)) songId r1 env1 w) =
           \<lparr>data = Some row, ApiResponse.error = None\<rparr>"
    and "same_favourite u songId row"
    and "w1 = snd (addFavourite (cachedFavourites (offline w)) songId r1 env1 w)"
  shows "addFavourite (cachedFavourites (offline w1)) songId r2 env2 w1 =
           (\<lparr>data = Some row, ApiResponse.error = None\<rparr>, w1)
       \<and> favourite_count u songId (offline w1) = max 1 (favourite_count u songId (offline w))"
proof (cases "find (same_favourite u songId) (cachedFavourites (offline w))")
  case (Some existingFav)
  with assms(1,2) have row: "row = existingFav"
    by (simp add: addFavourite_def begin_op_def succeed_def)
  from Some assms(1,4) have w1: "w1 = w\<lparr>loading := False, World.error := None\<rparr>"
    by (simp add: addFavourite_def begin_op_def succeed_def)
  have "1 \<le> favourite_count u songId (offline w)"
    using find_Some_filter [OF Some] by (simp add: favourite_count_def)
  with Some assms(1) row w1 show ?thesis
    by (simp add: addFavourite_def begin_op_def succeed_def favourite_count_def)
next
  case None
  from None assms(1,2) obtain ok: "r1 = Data row" "cache_write env1 = None" "sync_write env1 = None"
    by (cases r1; cases "cache_write env1"; cases "sync_write env1")
       (simp_all add: addFavourite_def begin_op_def send_def succeed_def fail_with_def
          updateCache_def only_favourites_def Let_def)
  from None assms(1,4) ok have w1: "w1 =
      w\<lparr>loading := False, World.error := None,
        network := network w @ [Insert_favourite (User.id u) songId],
        offline := (offline w)\<lparr>cachedFavourites := cachedFavourites (offline w) @ [row],
          storage := ((storage (offline w))
             (CACHE_DATA \<mapsto> CacheBlob \<lparr>CacheData.songs = cachedSongs (offline w),
                 CacheData.favourites = cachedFavourites (offline w) @ [row],
                 CacheData.folders = cachedFolders (offline w),
                 CacheData.lastUpdated = t_start env1\<rparr>))
             (LAST_SYNC \<mapsto> DateBlob (t_write env1)),
          lastSync := Some (t_done env1)\<rparr>\<rparr>"
    by (simp add: addFavourite_def begin_op_def send_def succeed_def
          updateCache_def only_favourites_def Let_def)
  have found: "find (same_favourite u songId) (cachedFavourites (offline w) @ [row]) = Some row"
    using find_append_new [OF None assms(3)] .
  have cnt: "favourite_count u songId (offline w) = 0"
    using find_None_filter [OF None] by (simp add: favourite_count_def)
  have second: "addFavourite (cachedFavourites (offline w1)) songId r2 env2 w1 =
           (\<lparr>data = Some row, ApiResponse.error = None\<rparr>, w1)"
    unfolding w1 using assms(1) found
    by (simp add: addFavourite_def begin_op_def succeed_def)
  have one: "favourite_count u songId (offline w1) = 1"
    unfolding w1 using find_None_filter [OF None] assms(3) by (simp add: favourite_count_def)
  from second cnt one show ?thesis by simp
qed

text \<open>
  Claim C3 says that \<^verbatim>\<open>addFavourite(songId)\<close> called twice in succession returns the
  same favourite row both times, the second call returning the row already present. The
  guard of \<^verbatim>\<open>addFavourite\<close> searches the list its callback closes over. When the two
  calls go through the same callback, made while the cache held no favourite, the first
  call inserts the row and puts it in the cache; the second call searches the list
  captured before, does not find the row, and sends a second insert. The backend refuses
  it, the table allowing one row for a user and song, and the second call returns that
  error and no row.
\<close>

theorem addFavourite_same_callback_twice:
  "user alice_world = Some alice
   \<and> cachedFavourites (offline alice_world) = []
   \<and> fst (addFavourite [] 7 (Data (fav_row 1 ''alice'' 7)) (env_at 0) alice_world) =
       \<lparr>data = Some (fav_row 1 ''alice'' 7), ApiResponse.error = None\<rparr>
   \<and> cachedFavourites
         (offline (snd (addFavourite [] 7 (Data (fav_row 1 ''alice'' 7)) (env_at 0) alice_world))) =
       [fav_row 1 ''alice'' 7]
   \<and> fst (addFavourite [] 7 (Failure duplicate_key) (env_at 1)
          (snd (addFavourite [] 7 (Data (fav_row 1 ''alice'' 7)) (env_at 0) alice_world))) =
       \<lparr>data = None, ApiResponse.error = Some duplicate_key\<rparr>
   \<and> network (snd (addFavourite [] 7 (Failure duplicate_key) (env_at 1)
          (snd (addFavourite [] 7 (Data (fav_row 1 ''alice'' 7)) (env_at 0) alice_world)))) =
       [Insert_favourite ''alice'' 7, Insert_favourite ''alice'' 7]"
  by (simp add: alice_world_def signed_out_world_def initial_state_def addFavourite_def
        begin_op_def send_def succeed_def fail_with_def updateCache_def only_favourites_def
        env_at_def Let_def alice_def)

subsection \<open>Song search\<close>














lemma digits_value: "decimal_value (digits n) = n"
proof (induction n rule: digits.induct)
  case (1 n)
  show ?case
  proof (cases "n < 10")
    case True
    then show ?thesis by (subst digits.simps) (simp add: decimal_value_def)
  next
    case False
    with 1 have "decimal_value (digits (n div 10)) = n div 10" by simp
    with False show ?thesis
      by (subst digits.simps) (simp add: decimal_value_def)
  qed
qed




end
